theory Spec2Isabelle
  imports Main
begin

section \<open>The live-reload supervisor golr\<close>

text \<open>
  The repository holds two variants of one program: \<^verbatim>\<open>golr.go\<close> (parsing its command line
  with the standard flag package) and a second file (parsing it with go-flags and forwarding
  the arguments after \<^verbatim>\<open>--\<close> to the child). Both watch source files, rebuild an executable
  when one changes, and start, kill and restart the built program.

  Everything the program asks of its surroundings (the file system, the compiler, the
  process table, the channels) is read from a record, one per loop iteration; everything it
  does to them is written to a list of effects, in program order.
\<close>

subsection \<open>Values\<close>

type_synonym path = string

text \<open>\<^verbatim>\<open>time.Time\<close>: an instant; \<^verbatim>\<open>a.After(b)\<close> is \<open>b < a\<close>.\<close>
type_synonym time = int

type_synonym duration = int

text \<open>\<^verbatim>\<open>*os.Process\<close>: a started process, named by its id; the nil pointer is \<open>None\<close>.\<close>
type_synonym pid = nat

type_synonym bytes = string

text \<open>
  Go's \<^verbatim>\<open>error\<close> values: \<open>ExitError n\<close> is \<^verbatim>\<open>*exec.ExitError\<close>, a command that ran and
  ended with the status \<open>n\<close>, which is not zero; every other error carries its text.
\<close>
datatype error = ExitError nat | OtherError string

datatype signal = Interrupt | Kill

record PStateErr =
  PState :: "nat option"
  Err :: "error option"

text \<open>The lines the program prints, one constructor per format string of the source.\<close>
datatype message =
    Msg_Changed path                       \<comment> \<open>\<^verbatim>\<open>"Changed: %s\n"\<close>\<close>
  | Msg_Building_srcs "path list"          \<comment> \<open>\<^verbatim>\<open>"Building: %s\n"\<close>\<close>
  | Msg_Build_failed_out bytes             \<comment> \<open>\<^verbatim>\<open>"Build failed:\n%s\n"\<close>, the compiler's output\<close>
  | Msg_Build_done duration                \<comment> \<open>\<^verbatim>\<open>"Build done: %s\n"\<close>\<close>
  | Msg_Starting path                      \<comment> \<open>\<^verbatim>\<open>"Starting %s\n"\<close> (golr.go)\<close>
  | Msg_Starting_args path "string list"   \<comment> \<open>\<^verbatim>\<open>"Starting %s %s\n"\<close> (second variant)\<close>
  | Msg_Building                           \<comment> \<open>\<^verbatim>\<open>"Building...\n"\<close> (golr.go, in main)\<close>
  | Msg_Build_failed_err error             \<comment> \<open>\<^verbatim>\<open>Println("Build failed", err)\<close>\<close>
  | Msg_Process_exited error               \<comment> \<open>\<^verbatim>\<open>"Process exited: %s\n"\<close>\<close>
  | Msg_Process_exited_ok                  \<comment> \<open>\<^verbatim>\<open>"Process exited without error\n"\<close>\<close>
  | Msg_Signal signal                      \<comment> \<open>\<^verbatim>\<open>"Signal: %s\n"\<close>\<close>

datatype effect =
    Print message
  | Exec string "string list"         \<comment> \<open>\<^verbatim>\<open>exec.Command(name, args...).CombinedOutput()\<close>\<close>
  | StartProcess path "string list"   \<comment> \<open>\<^verbatim>\<open>os.StartProcess(name, argv, attr)\<close>\<close>
  | GoWait pid                        \<comment> \<open>the goroutine that waits for the child and sends on pchan\<close>
  | ProcKill pid                      \<comment> \<open>\<^verbatim>\<open>proc.Kill()\<close>\<close>
  | Sleep nat                         \<comment> \<open>\<^verbatim>\<open>time.Sleep\<close>, in milliseconds\<close>

subsection \<open>The surroundings of one loop iteration\<close>

text \<open>
  How a run of the external command ends: it ran and exited with a status, or it could not
  be run at all (the executable is not found, the process cannot be created).
\<close>
datatype cmd_outcome = Exited nat | NotRun string

text \<open>
  The error \<^verbatim>\<open>cmd.CombinedOutput()\<close> returns, after the documentation of os/exec: nil when
  the command runs and exits with status zero, an \<^verbatim>\<open>*exec.ExitError\<close> when it exits with
  another status, some other error when it does not run.
\<close>
fun CombinedOutput_err :: "cmd_outcome \<Rightarrow> error option" where
  "CombinedOutput_err (Exited n) = (if n = 0 then None else Some (ExitError n))"
| "CombinedOutput_err (NotRun m) = Some (OtherError m)"

text \<open>
  Which case the \<^verbatim>\<open>select\<close> statement of the loop takes: a receive from the completion
  channel \<^verbatim>\<open>pchan\<close>, a receive from the signal channel \<^verbatim>\<open>cchan\<close>, or, when neither
  channel is ready, \<^verbatim>\<open>default\<close>.
\<close>
datatype select_case = Default | PChan PStateErr | CChan signal

record world =
  stat :: "path \<Rightarrow> time option"      \<comment> \<open>\<^verbatim>\<open>os.Stat(f)\<close>: \<open>None\<close> is an error, else the ModTime\<close>
  go_outcome :: cmd_outcome            \<comment> \<open>how the run of \<^verbatim>\<open>go build\<close> ends\<close>
  go_output :: bytes                   \<comment> \<open>its combined standard output and error\<close>
  elapsed :: duration                  \<comment> \<open>\<^verbatim>\<open>time.Since(startTime)\<close>\<close>
  start_process :: "error + pid"       \<comment> \<open>the result of \<^verbatim>\<open>os.StartProcess\<close>\<close>
  proc_kill :: "error option"          \<comment> \<open>the result of \<^verbatim>\<open>Process.Kill\<close>\<close>
  select_ready :: select_case

subsection \<open>Scanner\<close>

record Scanner =
  srcs :: "path list"
  dirs :: "path list"
  mtime :: time

definition NewScanner :: "path list \<Rightarrow> path list \<Rightarrow> time \<Rightarrow> Scanner" where
  "NewScanner ss ds now = \<lparr>srcs = ss, dirs = ds, mtime = now\<rparr>"

text \<open>
  The loop of \<^verbatim>\<open>detect\<close> over \<^verbatim>\<open>s.srcs\<close>: the baseline is only written on the way out,
  so the loop reads one fixed baseline. It returns the file and the modification time it
  stops at.
\<close>
fun detect_range :: "(path \<Rightarrow> time option) \<Rightarrow> time \<Rightarrow> path list \<Rightarrow> (path \<times> time) option" where
  "detect_range st base [] = None"
| "detect_range st base (f # fs) =
     (case st f of
        None \<Rightarrow> detect_range st base fs
      | Some mt \<Rightarrow> if base < mt then Some (f, mt) else detect_range st base fs)"

definition detect :: "(path \<Rightarrow> time option) \<Rightarrow> Scanner \<Rightarrow> bool \<times> Scanner \<times> effect list" where
  "detect st s =
     (case detect_range st (mtime s) (srcs s) of
        Some (f, mt) \<Rightarrow> (True, s\<lparr>mtime := mt\<rparr>, [Print (Msg_Changed f)])
      | None \<Rightarrow> (False, s, []))"

text \<open>A sequence of calls of \<^verbatim>\<open>detect\<close>, each with the file system of its moment.\<close>
fun detect_calls :: "(path \<Rightarrow> time option) list \<Rightarrow> Scanner \<Rightarrow> Scanner" where
  "detect_calls [] s = s"
| "detect_calls (st # sts) s = detect_calls sts (fst (snd (detect st s)))"

text \<open>A watched file that can be stat'ed and is strictly newer than the baseline.\<close>
definition newer :: "(path \<Rightarrow> time option) \<Rightarrow> time \<Rightarrow> path \<Rightarrow> bool" where
  "newer st base f = (case st f of Some mt \<Rightarrow> base < mt | None \<Rightarrow> False)"

subsection \<open>Builder\<close>

record Builder =
  bsrcs :: "path list"
  boutfile :: path

definition NewBuilder :: "path \<Rightarrow> path list \<Rightarrow> Builder" where
  "NewBuilder out ss = \<lparr>bsrcs = ss, boutfile = out\<rparr>"

definition build :: "world \<Rightarrow> Builder \<Rightarrow> error option \<times> effect list" where
  "build w b =
     (let args = [''build'', ''-o'', boutfile b] @ bsrcs b;
          err = CombinedOutput_err (go_outcome w)
      in (err,
          [Print (Msg_Building_srcs (bsrcs b)), Exec ''go'' args] @
          (case err of
             Some e \<Rightarrow> [Print (Msg_Build_failed_out (go_output w))]
           | None \<Rightarrow> [Print (Msg_Build_done (elapsed w))])))"

subsection \<open>Runner\<close>

text \<open>
  The Runner of golr.go; the second variant adds the field \<^verbatim>\<open>args\<close>. The channel
  \<^verbatim>\<open>pchan\<close> is not a field of the model: what arrives on it is read from the world.
\<close>
record Runner =
  outfile :: path
  proc :: "pid option"

record RunnerB = Runner +
  args :: "string list"

definition NewRunner :: "path \<Rightarrow> Runner" where
  "NewRunner out = \<lparr>outfile = out, proc = None\<rparr>"

definition NewRunnerB :: "path \<Rightarrow> string list \<Rightarrow> RunnerB" where
  "NewRunnerB out as = \<lparr>outfile = out, proc = None, args = as\<rparr>"

definition spawn :: "world \<Rightarrow> Runner \<Rightarrow> error option \<times> Runner \<times> effect list" where
  "spawn w r =
     (let argv = [outfile r] in
      case start_process w of
        Inl e \<Rightarrow> (Some e, r, [Print (Msg_Starting (outfile r)), StartProcess (outfile r) argv])
      | Inr p \<Rightarrow> (None, r\<lparr>proc := Some p\<rparr>,
                  [Print (Msg_Starting (outfile r)), StartProcess (outfile r) argv, GoWait p]))"

definition spawnB :: "world \<Rightarrow> RunnerB \<Rightarrow> error option \<times> RunnerB \<times> effect list" where
  "spawnB w r =
     (let argv = [outfile r] @ args r in
      case start_process w of
        Inl e \<Rightarrow> (Some e, r,
                  [Print (Msg_Starting_args (outfile r) (tl argv)), StartProcess (outfile r) argv])
      | Inr p \<Rightarrow> (None, r\<lparr>proc := Some p\<rparr>,
                  [Print (Msg_Starting_args (outfile r) (tl argv)), StartProcess (outfile r) argv,
                   GoWait p]))"

text \<open>
  \<^verbatim>\<open>kill\<close> is the same text in both files; it is defined on every record that extends
  Runner. The value \<^verbatim>\<open>r.proc.Kill()\<close> returns is dropped, as in the source.
\<close>
definition kill :: "world \<Rightarrow> 'a Runner_scheme \<Rightarrow> bool \<times> 'a Runner_scheme \<times> effect list" where
  "kill w r =
     (case proc r of
        Some p \<Rightarrow> (let dropped = proc_kill w in (True, r\<lparr>proc := None\<rparr>, [ProcKill p]))
      | None \<Rightarrow> (False, r, []))"

subsection \<open>The coordinator\<close>

datatype state = building | running | killing | exiting

record 'r coord =
  state :: state
  scanner :: Scanner
  builder :: Builder
  runner :: 'r

text \<open>What \<^verbatim>\<open>main\<close> of golr.go sets up before the loop.\<close>
definition init :: "path list \<Rightarrow> path \<Rightarrow> time \<Rightarrow> Runner coord" where
  "init ss out now =
     \<lparr>state = building, scanner = NewScanner ss [] now, builder = NewBuilder out ss,
      runner = NewRunner out\<rparr>"


definition initB :: "path list \<Rightarrow> path list \<Rightarrow> path \<Rightarrow> string list \<Rightarrow> time \<Rightarrow> RunnerB coord" where
  "initB ss ds out args_child now =
     \<lparr>state = building, scanner = NewScanner ss ds now, builder = NewBuilder out ss,
      runner = NewRunnerB out args_child\<rparr>"

text \<open>The branch of the loop body for the states running and killing, shared by both files.\<close>
definition watch :: "world \<Rightarrow> ('a Runner_scheme) coord \<Rightarrow> ('a Runner_scheme) coord \<times> effect list" where
  "watch w c =
     (case select_ready w of
        Default \<Rightarrow>
          (let (changed, s', es1) = detect (stat w) (scanner c) in
           if changed then
             (let (killed, r', es2) = kill w (runner c) in
              (c\<lparr>scanner := s', runner := r',
                 state := (if killed then killing else building)\<rparr>,
               es1 @ es2 @ [Sleep 250]))
           else (c\<lparr>scanner := s'\<rparr>, es1 @ [Sleep 250]))
      | PChan ps \<Rightarrow>
          (c\<lparr>state := (if state c = killing then building else exiting)\<rparr>,
           [Print (case Err ps of Some e \<Rightarrow> Msg_Process_exited e | None \<Rightarrow> Msg_Process_exited_ok),
            Sleep 250])
      | CChan sg \<Rightarrow> (c\<lparr>state := exiting\<rparr>, [Print (Msg_Signal sg), Sleep 250]))"

text \<open>One pass through the body of the loop of golr.go.\<close>
definition iteration :: "world \<Rightarrow> Runner coord \<Rightarrow> Runner coord \<times> effect list" where
  "iteration w c =
     (if state c = building then
        (let (err, es1) = build w (builder c) in
         case err of
           Some e \<Rightarrow>
             (c\<lparr>state := running\<rparr>, [Print Msg_Building] @ es1 @ [Print (Msg_Build_failed_err e)])
         | None \<Rightarrow>
             (let (dropped, r', es2) = spawn w (runner c) in
              (c\<lparr>runner := r', state := running\<rparr>, [Print Msg_Building] @ es1 @ es2)))
      else if state c = running \<or> state c = killing then watch w c
      else (c, []))"

text \<open>One pass through the body of the loop of the second variant.\<close>
definition iterationB :: "world \<Rightarrow> RunnerB coord \<Rightarrow> RunnerB coord \<times> effect list" where
  "iterationB w c =
     (if state c = building then
        (let (err, es1) = build w (builder c) in
         case err of
           Some e \<Rightarrow> (c\<lparr>state := running\<rparr>, es1 @ [Print (Msg_Build_failed_err e)])
         | None \<Rightarrow>
             (let (dropped, r', es2) = spawnB w (runner c) in
              (c\<lparr>runner := r', state := running\<rparr>, es1 @ es2)))
      else if state c = running \<or> state c = killing then watch w c
      else (c, []))"

text \<open>
  The loop \<^verbatim>\<open>for (state != exiting)\<close>, run for as many iterations as there are worlds in
  the list, or until the state is exiting.
\<close>
fun main_loop :: "world list \<Rightarrow> Runner coord \<Rightarrow> Runner coord \<times> effect list" where
  "main_loop [] c = (c, [])"
| "main_loop (w # ws) c =
     (if state c \<noteq> exiting then
        (let (c', es) = iteration w c; (c'', es') = main_loop ws c' in (c'', es @ es'))
      else (c, []))"


subsection \<open>Observations on effects and concrete surroundings\<close>

definition is_exec :: "effect \<Rightarrow> bool" where
  "is_exec e = (case e of Exec n as \<Rightarrow> True | _ \<Rightarrow> False)"

text \<open>A file whose \<^verbatim>\<open>os.Stat\<close> succeeds.\<close>
definition stat_ok :: "(path \<Rightarrow> time option) \<Rightarrow> path \<Rightarrow> bool" where
  "stat_ok st f = (case st f of Some mt \<Rightarrow> True | None \<Rightarrow> False)"

text \<open>
  A file system with two source files, \<^verbatim>\<open>a.go\<close> modified at 10 and \<^verbatim>\<open>b.go\<close> modified at
  20, and surroundings in which the build succeeds, the artifact starts as process 1, no
  channel is ready and the file system is that one.
\<close>
definition fs1 :: "path \<Rightarrow> time option" where
  "fs1 f = (if f = ''a.go'' then Some 10 else if f = ''b.go'' then Some 20 else None)"

definition world1 :: world where
  "world1 = \<lparr>stat = fs1, go_outcome = Exited 0, go_output = [], elapsed = 3,
     start_process = Inr 1, proc_kill = None, select_ready = Default\<rparr>"

text \<open>
  Surroundings in which the completion channel delivers a child's exit, with status zero
  and no error from Wait.
\<close>
definition exit_world :: world where
  "exit_world = world1\<lparr>select_ready := PChan \<lparr>PState = Some 0, Err = None\<rparr>\<rparr>"


subsection \<open>Comparing the two variants\<close>




lemmas run_simps = iteration_def iterationB_def watch_def build_def spawn_def spawnB_def
  kill_def detect_def init_def initB_def NewScanner_def NewBuilder_def NewRunner_def
  NewRunnerB_def world1_def fs1_def Let_def exit_world_def

section \<open>Change detection\<close>

lemma detect_range_Some:
  "detect_range st base fs = Some (f, mt) \<Longrightarrow> f \<in> set fs \<and> st f = Some mt \<and> base < mt"
  by (induction fs) (auto split: option.splits if_splits)

lemma detect_step:
  "mtime (fst (snd (detect st s))) = mtime s \<or>
   (mtime s < mtime (fst (snd (detect st s))) \<and>
    (\<exists>f\<in>set (srcs s). st f = Some (mtime (fst (snd (detect st s))))))"
  by (auto simp: detect_def split: option.splits dest: detect_range_Some)

lemma detect_calls_mono: "mtime s \<le> mtime (detect_calls sts s)"
proof (induction sts arbitrary: s)
  case Nil
  show ?case by simp
next
  case (Cons st sts)
  have "mtime s \<le> mtime (fst (snd (detect st s)))"
    using detect_step [of st s] by linarith
  also have "\<dots> \<le> mtime (detect_calls sts (fst (snd (detect st s))))"
    by (rule Cons.IH)
  finally show ?case by simp
qed

lemma detect_calls_append: "detect_calls (sts @ sts') s = detect_calls sts' (detect_calls sts s)"
  by (induction sts arbitrary: s) simp_all

lemma detect_range_None_iff:
  "detect_range st base fs = None \<longleftrightarrow> (\<forall>f\<in>set fs. \<not> newer st base f)"
  by (induction fs) (auto simp: newer_def split: option.splits)

text \<open>
  Where the loop stops: at the first index whose file is newer than the baseline. A second
  pass, against the time found, need only look at the files after that index.
\<close>
lemma detect_range_first:
  "detect_range st base fs = Some (f, mt) \<Longrightarrow>
     \<exists>i<length fs. fs ! i = f \<and> st f = Some mt \<and> base < mt \<and>
        (\<forall>j<i. \<not> newer st base (fs ! j)) \<and>
        detect_range st mt fs = detect_range st mt (drop (Suc i) fs)"
proof (induction fs)
  case Nil
  then show ?case by simp
next
  case (Cons g gs)
  show ?case
  proof (cases "newer st base g")
    case True
    then obtain t where t: "st g = Some t" "base < t"
      by (auto simp: newer_def split: option.splits)
    with Cons.prems have "f = g" "mt = t" by simp_all
    with t have "0 < length (g # gs) \<and> (g # gs) ! 0 = f \<and> st f = Some mt \<and> base < mt \<and>
        (\<forall>j<0. \<not> newer st base ((g # gs) ! j)) \<and>
        detect_range st mt (g # gs) = detect_range st mt (drop (Suc 0) (g # gs))"
      by simp
    then show ?thesis by blast
  next
    case False
    with Cons.prems have rest: "detect_range st base gs = Some (f, mt)"
      by (auto simp: newer_def split: option.splits if_splits)
    from Cons.IH [OF rest] obtain i where i: "i < length gs" "gs ! i = f" "st f = Some mt"
      "base < mt" "\<forall>j<i. \<not> newer st base (gs ! j)"
      "detect_range st mt gs = detect_range st mt (drop (Suc i) gs)"
      by blast
    from False i(4) have skip: "detect_range st mt (g # gs) = detect_range st mt gs"
      by (auto simp: newer_def split: option.splits)
    have before: "\<forall>j<Suc i. \<not> newer st base ((g # gs) ! j)"
      using False i(5) by (auto simp: less_Suc_eq_0_disj)
    from i skip before have "Suc i < length (g # gs) \<and> (g # gs) ! Suc i = f \<and>
        st f = Some mt \<and> base < mt \<and> (\<forall>j<Suc i. \<not> newer st base ((g # gs) ! j)) \<and>
        detect_range st mt (g # gs) = detect_range st mt (drop (Suc (Suc i)) (g # gs))"
      by simp
    then show ?thesis by blast
  qed
qed

lemma set_drop_index:
  "(\<forall>f\<in>set (drop n fs). P f) \<longleftrightarrow> (\<forall>j. n \<le> j \<and> j < length fs \<longrightarrow> P (fs ! j))"
proof
  assume all: "\<forall>f\<in>set (drop n fs). P f"
  show "\<forall>j. n \<le> j \<and> j < length fs \<longrightarrow> P (fs ! j)"
  proof (intro allI impI)
    fix j assume j: "n \<le> j \<and> j < length fs"
    then have "j - n < length (drop n fs)" by (simp add: diff_less_mono)
    then have "drop n fs ! (j - n) \<in> set (drop n fs)" by (rule nth_mem)
    moreover from j have "drop n fs ! (j - n) = fs ! j" by simp
    ultimately show "P (fs ! j)" using all by auto
  qed
next
  assume idx: "\<forall>j. n \<le> j \<and> j < length fs \<longrightarrow> P (fs ! j)"
  show "\<forall>f\<in>set (drop n fs). P f"
  proof
    fix f assume "f \<in> set (drop n fs)"
    then obtain i where i: "i < length (drop n fs)" "drop n fs ! i = f"
      by (auto simp: in_set_conv_nth)
    then have "n + i < length fs" "fs ! (n + i) = f" by simp_all
    with idx show "P f" by (metis le_add1)
  qed
qed

lemma detect_range_skips_failed:
  "detect_range st base (filter (stat_ok st) fs) = detect_range st base fs"
  by (induction fs) (auto simp: stat_ok_def split: option.splits)

text \<open>
  C3, as the code has it. \<^verbatim>\<open>detect\<close> returns true exactly when some watched file can be
  stat'ed and is strictly newer than the baseline. It stops at the first such file in list
  order, sets the baseline to that file's modification time and prints its name; when there
  is none it changes nothing. A file whose stat fails is skipped: taking such files out of
  the list changes neither the result, the baseline nor the output. Called again on the
  same file system, \<^verbatim>\<open>detect\<close> returns true again exactly when a file later in the list is
  strictly newer than the new baseline, so it returns false only when there is no such
  file.
\<close>
theorem detect_first_newer_wins:
  assumes "detect st s = (changed, s', es)"
  shows "(changed \<longleftrightarrow> (\<exists>f\<in>set (srcs s). newer st (mtime s) f)) \<and>
    (\<not> changed \<longrightarrow> s' = s \<and> es = []) \<and>
    (changed \<longrightarrow> (\<exists>i<length (srcs s).
        (\<forall>j<i. \<not> newer st (mtime s) (srcs s ! j)) \<and>
        st (srcs s ! i) = Some (mtime s') \<and> mtime s < mtime s' \<and>
        s' = s\<lparr>mtime := mtime s'\<rparr> \<and> es = [Print (Msg_Changed (srcs s ! i))] \<and>
        (fst (detect st s') \<longleftrightarrow>
           (\<exists>j. i < j \<and> j < length (srcs s) \<and> newer st (mtime s') (srcs s ! j))))) \<and>
    detect st (s\<lparr>srcs := filter (stat_ok st) (srcs s)\<rparr>) =
      (changed, s'\<lparr>srcs := filter (stat_ok st) (srcs s)\<rparr>, es)"
proof (cases "detect_range st (mtime s) (srcs s)")
  case None
  with assms have r: "changed = False" "s' = s" "es = []"
    by (simp_all add: detect_def)
  from None have "\<forall>f\<in>set (srcs s). \<not> newer st (mtime s) f"
    by (simp add: detect_range_None_iff)
  moreover from None have "detect st (s\<lparr>srcs := filter (stat_ok st) (srcs s)\<rparr>) =
      (False, s\<lparr>srcs := filter (stat_ok st) (srcs s)\<rparr>, [])"
    by (simp add: detect_def detect_range_skips_failed)
  ultimately show ?thesis using r by simp
next
  case (Some fm)
  obtain f mt where fm: "fm = (f, mt)" by (cases fm)
  with Some assms have r: "changed = True" "s' = s\<lparr>mtime := mt\<rparr>" "es = [Print (Msg_Changed f)]"
    by (simp_all add: detect_def)
  from Some fm have "\<not> (\<forall>f\<in>set (srcs s). \<not> newer st (mtime s) f)"
    by (simp flip: detect_range_None_iff)
  then have ex: "\<exists>f\<in>set (srcs s). newer st (mtime s) f" by blast
  from detect_range_first [OF Some [unfolded fm]] obtain i where i: "i < length (srcs s)"
    "srcs s ! i = f" "st f = Some mt" "mtime s < mt"
    "\<forall>j<i. \<not> newer st (mtime s) (srcs s ! j)"
    "detect_range st mt (srcs s) = detect_range st mt (drop (Suc i) (srcs s))"
    by blast
  have "fst (detect st s') \<longleftrightarrow> detect_range st mt (srcs s) \<noteq> None"
    using r(2) by (auto simp: detect_def split: option.splits)
  also have "\<dots> \<longleftrightarrow> \<not> (\<forall>f\<in>set (drop (Suc i) (srcs s)). \<not> newer st mt f)"
    by (simp add: i(6) detect_range_None_iff)
  also have "\<dots> \<longleftrightarrow> (\<exists>j. i < j \<and> j < length (srcs s) \<and> newer st mt (srcs s ! j))"
    by (simp add: set_drop_index Suc_le_eq)
  finally have again: "fst (detect st s') \<longleftrightarrow>
      (\<exists>j. i < j \<and> j < length (srcs s) \<and> newer st (mtime s') (srcs s ! j))"
    using r(2) by simp
  have skipped: "detect st (s\<lparr>srcs := filter (stat_ok st) (srcs s)\<rparr>) =
      (changed, s'\<lparr>srcs := filter (stat_ok st) (srcs s)\<rparr>, es)"
    using Some fm r by (simp add: detect_def detect_range_skips_failed)
  from i r have "i < length (srcs s) \<and>
        (\<forall>j<i. \<not> newer st (mtime s) (srcs s ! j)) \<and>
        st (srcs s ! i) = Some (mtime s') \<and> mtime s < mtime s' \<and>
        s' = s\<lparr>mtime := mtime s'\<rparr> \<and> es = [Print (Msg_Changed (srcs s ! i))]"
    by simp
  with again have "\<exists>i<length (srcs s).
        (\<forall>j<i. \<not> newer st (mtime s) (srcs s ! j)) \<and>
        st (srcs s ! i) = Some (mtime s') \<and> mtime s < mtime s' \<and>
        s' = s\<lparr>mtime := mtime s'\<rparr> \<and> es = [Print (Msg_Changed (srcs s ! i))] \<and>
        (fst (detect st s') \<longleftrightarrow>
           (\<exists>j. i < j \<and> j < length (srcs s) \<and> newer st (mtime s') (srcs s ! j)))"
    by blast
  with ex skipped r(1) show ?thesis by simp
qed

text \<open>
  With \<^verbatim>\<open>b.go\<close> (modified at 20) listed before \<^verbatim>\<open>a.go\<close> (modified at 10) and the baseline
  at 5, the first call stops at \<^verbatim>\<open>b.go\<close> and the second call returns false.
\<close>
theorem detect_first_newer_wins_witness:
  "fst (detect fs1 (NewScanner [''b.go'', ''a.go''] [] 5)) \<and>
   mtime (fst (snd (detect fs1 (NewScanner [''b.go'', ''a.go''] [] 5)))) = 20 \<and>
   \<not> fst (detect fs1 (NewScanner [''b.go'', ''a.go''] [] 20))"
  using detect_first_newer_wins [of fs1 "NewScanner [''b.go'', ''a.go''] [] 5" True
      "NewScanner [''b.go'', ''a.go''] [] 20" "[Print (Msg_Changed ''b.go'')]"]
  by (simp add: detect_def NewScanner_def fs1_def)

text \<open>
  The claim's "a subsequent call with no further changes returns false" fails when a second
  file is newer still: with \<^verbatim>\<open>a.go\<close> listed before \<^verbatim>\<open>b.go\<close>, the first call stops at
  \<^verbatim>\<open>a.go\<close> and sets the baseline to 10, and the second call, on the same file system,
  returns true for \<^verbatim>\<open>b.go\<close>.
\<close>
theorem detect_twice_counterexample:
  "detect fs1 (NewScanner [''a.go'', ''b.go''] [] 5) =
     (True, NewScanner [''a.go'', ''b.go''] [] 10, [Print (Msg_Changed ''a.go'')]) \<and>
   detect fs1 (NewScanner [''a.go'', ''b.go''] [] 10) =
     (True, NewScanner [''a.go'', ''b.go''] [] 20, [Print (Msg_Changed ''b.go'')])"
  by (simp add: detect_def NewScanner_def fs1_def)

text \<open>
  C4. The baseline never decreases. \<^verbatim>\<open>NewScanner\<close> sets it to the time of construction;
  one call of \<^verbatim>\<open>detect\<close> leaves it as it is or moves it to a strictly later time, which is
  the modification time read from one of the watched files; and along every sequence of
  calls, whatever the file system does in between, a longer sequence ends at a baseline at
  least as late.
\<close>
theorem baseline_never_decreases:
  "mtime (NewScanner ss ds now) = now \<and>
   (mtime (fst (snd (detect st s))) = mtime s \<or>
    (mtime s < mtime (fst (snd (detect st s))) \<and>
     (\<exists>f\<in>set (srcs s). st f = Some (mtime (fst (snd (detect st s))))))) \<and>
   mtime (detect_calls sts s) \<le> mtime (detect_calls (sts @ sts') s)"
proof -
  have "mtime (NewScanner ss ds now) = now"
    by (simp add: NewScanner_def)
  moreover have "mtime (detect_calls sts s) \<le> mtime (detect_calls (sts @ sts') s)"
    by (simp add: detect_calls_append detect_calls_mono)
  ultimately show ?thesis using detect_step [of st s] by blast
qed

section \<open>Killing the child\<close>

text \<open>
  C5. \<^verbatim>\<open>kill\<close> on a Runner that tracks no child returns false, leaves the Runner as it is
  and does nothing to the surroundings; on a Runner that tracks a child it asks for that
  process to be killed, returns true, and the Runner it leaves tracks no child.
\<close>
theorem kill_false_without_child_true_with:
  "(proc r = None \<longrightarrow> kill w r = (False, r, [])) \<and>
   (proc r = Some p \<longrightarrow>
      kill w r = (True, r\<lparr>proc := None\<rparr>, [ProcKill p]) \<and> proc (fst (snd (kill w r))) = None)"
  by (simp add: kill_def)

theorem kill_false_without_child_true_with_witness:
  "kill world1 (NewRunner ''lr-bin'') = (False, NewRunner ''lr-bin'', []) \<and>
   kill world1 (NewRunner ''lr-bin''\<lparr>proc := Some 7\<rparr>) = (True, NewRunner ''lr-bin'', [ProcKill 7])"
  using kill_false_without_child_true_with [of "NewRunner ''lr-bin''" world1 7]
    kill_false_without_child_true_with [of "NewRunner ''lr-bin''\<lparr>proc := Some 7\<rparr>" world1 7]
  by (simp add: NewRunner_def)

text \<open>
  C9. When the Runner tracks a child and \<^verbatim>\<open>Process.Kill\<close> fails with an error, \<^verbatim>\<open>kill\<close>
  still clears the handle and returns true, and does exactly what it does when the request
  succeeds: its result is a boolean, the Runner and the kill request, none of which holds
  the error.
\<close>
theorem kill_ignores_failed_request:
  "proc r = Some p \<Longrightarrow> proc_kill w = Some e \<Longrightarrow>
     kill w r = (True, r\<lparr>proc := None\<rparr>, [ProcKill p]) \<and>
     kill w r = kill (w\<lparr>proc_kill := None\<rparr>) r"
  by (simp add: kill_def)

theorem kill_ignores_failed_request_witness:
  "kill (world1\<lparr>proc_kill := Some (OtherError ''os: process already finished'')\<rparr>)
      (NewRunner ''lr-bin''\<lparr>proc := Some 7\<rparr>) = (True, NewRunner ''lr-bin'', [ProcKill 7]) \<and>
   kill (world1\<lparr>proc_kill := Some (OtherError ''os: process already finished'')\<rparr>)
      (NewRunner ''lr-bin''\<lparr>proc := Some 7\<rparr>) = kill world1 (NewRunner ''lr-bin''\<lparr>proc := Some 7\<rparr>)"
  using kill_ignores_failed_request [of "NewRunner ''lr-bin''\<lparr>proc := Some 7\<rparr>" 7
      "world1\<lparr>proc_kill := Some (OtherError ''os: process already finished'')\<rparr>"
      "OtherError ''os: process already finished''"]
  by (simp add: NewRunner_def world1_def kill_def)

section \<open>The coordinator loop\<close>



text \<open>
  C1: what the code does. Both sources are built and the child is started (process 1); the
  first poll finds \<^verbatim>\<open>a.go\<close> newer than the baseline, kills the child and enters killing
  with the handle cleared. The next iteration takes the default case again (the completion
  event has not arrived) and finds \<^verbatim>\<open>b.go\<close> newer than the new baseline: \<^verbatim>\<open>kill\<close>
  returns false, since the handle is already nil, and the state becomes building, not
  killing. The rebuild then starts process 2, and when the exit of process 1 arrives in
  state running the loop ends, with process 2 still tracked.
\<close>
theorem killing_change_goes_building:
  "state (fst (main_loop [world1] (init [''a.go'', ''b.go''] ''lr-bin'' 5))) = running \<and>
   proc (runner (fst (main_loop [world1] (init [''a.go'', ''b.go''] ''lr-bin'' 5)))) = Some 1 \<and>
   state (fst (main_loop [world1, world1] (init [''a.go'', ''b.go''] ''lr-bin'' 5))) = killing \<and>
   proc (runner (fst (main_loop [world1, world1] (init [''a.go'', ''b.go''] ''lr-bin'' 5)))) = None \<and>
   state (fst (main_loop [world1, world1, world1] (init [''a.go'', ''b.go''] ''lr-bin'' 5))) = building \<and>
   state (fst (main_loop [world1, world1, world1, world1\<lparr>start_process := Inr 2\<rparr>, exit_world]
      (init [''a.go'', ''b.go''] ''lr-bin'' 5))) = exiting \<and>
   proc (runner (fst (main_loop [world1, world1, world1, world1\<lparr>start_process := Inr 2\<rparr>, exit_world]
      (init [''a.go'', ''b.go''] ''lr-bin'' 5)))) = Some 2"
  by (simp add: run_simps)

subsection \<open>The child handle\<close>








subsection \<open>A failed start of the artifact\<close>

text \<open>
  What an iteration does when the build succeeds and \<^verbatim>\<open>os.StartProcess\<close> fails:
  \<^verbatim>\<open>spawn\<close> returns the error and \<^verbatim>\<open>main\<close> does not look at it, so what the iteration
  prints and does is the same whatever the error is. The coordinator is left in state
  running with no child tracked, which is the configuration a build error leaves, and it
  still answers events: a signal leads to exiting, a detected change to building.
\<close>
lemma spawn_error_dropped:
  assumes "state c = building" and "proc (runner c) = None"
    and "go_outcome w = Exited 0" and "start_process w = Inl e"
  shows "fst (iteration w c) = c\<lparr>state := running\<rparr> \<and>
    proc (runner (fst (iteration w c))) = None \<and>
    fst (iteration w c) = fst (iteration (w\<lparr>go_outcome := Exited 1\<rparr>) c) \<and>
    snd (iteration w c) = snd (iteration (w\<lparr>start_process := Inl e'\<rparr>) c) \<and>
    snd (iteration w c) =
      [Print Msg_Building, Print (Msg_Building_srcs (bsrcs (builder c))),
       Exec ''go'' ([''build'', ''-o'', boutfile (builder c)] @ bsrcs (builder c)),
       Print (Msg_Build_done (elapsed w)), Print (Msg_Starting (outfile (runner c))),
       StartProcess (outfile (runner c)) [outfile (runner c)]] \<and>
    (select_ready w' = CChan sg \<longrightarrow> state (fst (iteration w' (fst (iteration w c)))) = exiting) \<and>
    (select_ready w' = Default \<and> fst (detect (stat w') (scanner c)) \<longrightarrow>
       state (fst (iteration w' (fst (iteration w c)))) = building)"
proof -
  from assms have st: "fst (iteration w c) = c\<lparr>state := running\<rparr>"
    by (simp add: iteration_def build_def spawn_def Let_def)
  from assms have es: "snd (iteration w c) =
      [Print Msg_Building, Print (Msg_Building_srcs (bsrcs (builder c))),
       Exec ''go'' ([''build'', ''-o'', boutfile (builder c)] @ bsrcs (builder c)),
       Print (Msg_Build_done (elapsed w)), Print (Msg_Starting (outfile (runner c))),
       StartProcess (outfile (runner c)) [outfile (runner c)]]"
    by (simp add: iteration_def build_def spawn_def Let_def)
  from assms have es': "snd (iteration w c) = snd (iteration (w\<lparr>start_process := Inl e'\<rparr>) c)"
    by (simp add: iteration_def build_def spawn_def Let_def)
  from assms have be: "fst (iteration (w\<lparr>go_outcome := Exited 1\<rparr>) c) = c\<lparr>state := running\<rparr>"
    by (simp add: iteration_def build_def Let_def)
  have sg: "select_ready w' = CChan sg \<longrightarrow>
      state (fst (iteration w' (c\<lparr>state := running\<rparr>))) = exiting"
    by (simp add: iteration_def watch_def)
  have ch: "select_ready w' = Default \<and> fst (detect (stat w') (scanner c)) \<longrightarrow>
       state (fst (iteration w' (c\<lparr>state := running\<rparr>))) = building"
    using assms(2) by (auto simp: iteration_def watch_def kill_def Let_def split: prod.splits)
  from st es es' be sg ch assms(2) show ?thesis by simp
qed

lemma spawn_error_dropped_witness:
  "fst (iteration (world1\<lparr>start_process := Inl (OtherError ''permission denied'')\<rparr>)
      (init [''a.go''] ''lr-bin'' 5)) = (init [''a.go''] ''lr-bin'' 5)\<lparr>state := running\<rparr> \<and>
   state (fst (iteration world1
      (fst (iteration (world1\<lparr>start_process := Inl (OtherError ''permission denied'')\<rparr>)
         (init [''a.go''] ''lr-bin'' 5))))) = building \<and>
   state (fst (iteration (world1\<lparr>select_ready := CChan Interrupt\<rparr>)
      (fst (iteration (world1\<lparr>start_process := Inl (OtherError ''permission denied'')\<rparr>)
         (init [''a.go''] ''lr-bin'' 5))))) = exiting"
  using spawn_error_dropped [of "init [''a.go''] ''lr-bin'' 5"
      "world1\<lparr>start_process := Inl (OtherError ''permission denied'')\<rparr>"
      "OtherError ''permission denied''" "OtherError ''permission denied''" world1 Interrupt]
    spawn_error_dropped [of "init [''a.go''] ''lr-bin'' 5"
      "world1\<lparr>start_process := Inl (OtherError ''permission denied'')\<rparr>"
      "OtherError ''permission denied''" "OtherError ''permission denied''"
      "world1\<lparr>select_ready := CChan Interrupt\<rparr>" Interrupt]
  by (simp add: run_simps)

text \<open>
  C7: what the code does. The build succeeds and \<^verbatim>\<open>os.StartProcess\<close> fails with
  "permission denied": the iteration prints the lines of a successful build and the line
  "Starting lr-bin", and nothing else; the error \<^verbatim>\<open>spawn\<close> returns is printed nowhere.
  The coordinator is left in state running with no child tracked. The other arm of the same
  \<^verbatim>\<open>if\<close> does print its error: when the compiler exits with status 2, the iteration
  ends with the line "Build failed" and that error.
\<close>
theorem spawn_error_not_logged:
  "iteration (world1\<lparr>start_process := Inl (OtherError ''permission denied'')\<rparr>)
      (init [''a.go''] ''lr-bin'' 5) =
     ((init [''a.go''] ''lr-bin'' 5)\<lparr>state := running\<rparr>,
      [Print Msg_Building, Print (Msg_Building_srcs [''a.go'']),
       Exec ''go'' [''build'', ''-o'', ''lr-bin'', ''a.go''], Print (Msg_Build_done 3),
       Print (Msg_Starting ''lr-bin''), StartProcess ''lr-bin'' [''lr-bin'']]) \<and>
   proc (runner (fst (iteration (world1\<lparr>start_process := Inl (OtherError ''permission denied'')\<rparr>)
      (init [''a.go''] ''lr-bin'' 5)))) = None \<and>
   iteration (world1\<lparr>go_outcome := Exited 2, go_output := ''syntax error''\<rparr>)
      (init [''a.go''] ''lr-bin'' 5) =
     ((init [''a.go''] ''lr-bin'' 5)\<lparr>state := running\<rparr>,
      [Print Msg_Building, Print (Msg_Building_srcs [''a.go'']),
       Exec ''go'' [''build'', ''-o'', ''lr-bin'', ''a.go''],
       Print (Msg_Build_failed_out ''syntax error''), Print (Msg_Build_failed_err (ExitError 2))])"
  by (simp add: run_simps)

section \<open>Building\<close>

text \<open>
  C8, as the code has it. One call of \<^verbatim>\<open>build\<close> prints the source list, runs
  \<^verbatim>\<open>go build -o <outfile> <srcs...>\<close> once, and prints one more line: the elapsed time when
  it reports success, the compiler's combined output when it reports failure. It reports
  success exactly when the compiler ran and exited with status zero; it reports failure
  when the compiler exited with another status and also when it could not be run.
\<close>
theorem build_runs_compiler_once:
  "snd (build w b) =
     [Print (Msg_Building_srcs (bsrcs b)),
      Exec ''go'' ([''build'', ''-o'', boutfile b] @ bsrcs b),
      (if fst (build w b) = None then Print (Msg_Build_done (elapsed w))
       else Print (Msg_Build_failed_out (go_output w)))] \<and>
   filter is_exec (snd (build w b)) = [Exec ''go'' ([''build'', ''-o'', boutfile b] @ bsrcs b)] \<and>
   ((fst (build w b) = None) = (go_outcome w = Exited 0))"
  by (cases "go_outcome w") (simp_all add: build_def is_exec_def Let_def)

text \<open>
  The claim's "exactly when the compiler exits non-zero" fails when the compiler does not
  run: with no \<^verbatim>\<open>go\<close> executable to be found, \<^verbatim>\<open>build\<close> reports failure, with an empty
  output, though no compiler exited.
\<close>
theorem build_not_run_counterexample:
  "go_outcome (world1\<lparr>go_outcome := NotRun ''exec: go: executable file not found''\<rparr>) =
     NotRun ''exec: go: executable file not found'' \<and>
   build (world1\<lparr>go_outcome := NotRun ''exec: go: executable file not found''\<rparr>)
      (NewBuilder ''lr-bin'' [''a.go'']) =
     (Some (OtherError ''exec: go: executable file not found''),
      [Print (Msg_Building_srcs [''a.go'']), Exec ''go'' [''build'', ''-o'', ''lr-bin'', ''a.go''],
       Print (Msg_Build_failed_out [])])"
  by (simp add: run_simps)

section \<open>The two variants\<close>














end
